theory Spec2Isabelle
  imports Complex_Main "HOL-Library.AList"
begin

section \<open>Python values, errors and dictionaries\<close>

text \<open>
  The two modules \<^verbatim>\<open>flac_analyzer.py\<close> and \<^verbatim>\<open>flac_level_detection.py\<close> each define
  \<^verbatim>\<open>analyze_flac_file\<close> and \<^verbatim>\<open>estimate_compression_level\<close>; the second module also
  defines \<^verbatim>\<open>get_flac_compression_level\<close>. Definitions taken from the first module carry
  the prefix \<open>fa_\<close>, those from the second the prefix \<open>ld_\<close>.

  Python floats are modelled as real numbers; NaN and the infinities are outside the
  model. In the estimators arithmetic is exact and rounding is left out. In the probe,
  where an integer is cut from a product of doubles and rounding can change it, the
  rounded operations are parameters of the world.
  Python ints are \<open>int\<close>. A raised exception is the \<open>Inl\<close> branch of a sum.
\<close>

datatype py_error =
    KeyError
  | TypeError
  | ValueError
  | AttributeError
  | ZeroDivisionError
  | FileNotFoundError
  | CalledProcessError string
  | OSError

datatype pyval = PInt int | PFloat real | PStr string | PBool bool

text \<open>A dict keeps insertion order; \<open>AList.update\<close> replaces in place or appends.\<close>

type_synonym info_dict = "(string \<times> pyval) list"

definition has_key :: "info_dict \<Rightarrow> string \<Rightarrow> bool" where
  "has_key info k = (map_of info k \<noteq> None)"

definition getitem :: "info_dict \<Rightarrow> string \<Rightarrow> py_error + pyval" where
  "getitem info k = (case map_of info k of None \<Rightarrow> Inl KeyError | Some v \<Rightarrow> Inr v)"

definition setitem :: "info_dict \<Rightarrow> string \<Rightarrow> pyval \<Rightarrow> info_dict" where
  "setitem info k v = AList.update k v info"

text \<open>Numeric reading of a value; \<open>bool\<close> is a subtype of \<open>int\<close> in Python.\<close>

fun as_num :: "pyval \<Rightarrow> py_error + real" where
  "as_num (PInt i) = Inr (real_of_int i)"
| "as_num (PFloat r) = Inr r"
| "as_num (PBool b) = Inr (if b then 1 else 0)"
| "as_num (PStr s) = Inl TypeError"

text \<open>Truth value of an object, as \<^verbatim>\<open>if x:\<close> takes it.\<close>

fun truthy :: "pyval \<Rightarrow> bool" where
  "truthy (PInt i) = (i \<noteq> 0)"
| "truthy (PFloat r) = (r \<noteq> 0)"
| "truthy (PStr s) = (s \<noteq> [])"
| "truthy (PBool b) = b"

text \<open>\<^verbatim>\<open>a == b\<close>: numbers compare by value, strings by content, mixed pairs are unequal.\<close>

fun py_eq :: "pyval \<Rightarrow> pyval \<Rightarrow> bool" where
  "py_eq (PStr s) (PStr t) = (s = t)"
| "py_eq (PStr s) b = False"
| "py_eq a (PStr t) = False"
| "py_eq a b = (as_num a = as_num b)"

text \<open>\<^verbatim>\<open>a / b\<close>: a string operand is a TypeError, a zero divisor a ZeroDivisionError.\<close>

definition py_truediv :: "pyval \<Rightarrow> pyval \<Rightarrow> py_error + real" where
  "py_truediv a b =
     (case as_num a of Inl e \<Rightarrow> Inl TypeError
      | Inr x \<Rightarrow> (case as_num b of Inl e \<Rightarrow> Inl TypeError
          | Inr y \<Rightarrow> if y = 0 then Inl ZeroDivisionError else Inr (x / y)))"

section \<open>The level table and the matching loop\<close>

text \<open>Lines 123--155 are the same text in both modules.\<close>

definition level_ranges :: "(real \<times> real) list" where
  "level_ranges =
     [(0.70, 1.00), (0.67, 0.75), (0.65, 0.70), (0.62, 0.67), (0.60, 0.65),
      (0.58, 0.63), (0.56, 0.60), (0.54, 0.58), (0.50, 0.56)]"

definition centrality :: "real \<Rightarrow> real \<Rightarrow> real \<Rightarrow> real" where
  "centrality ratio min_ratio max_ratio =
     (let range_size = max_ratio - min_ratio
      in if range_size > 0 then 1 - \<bar>(ratio - min_ratio) / range_size - 0.5\<bar> * 2 else 0)"

text \<open>The \<^verbatim>\<open>for level, (min_ratio, max_ratio) in enumerate(level_ranges)\<close> loop.\<close>

fun collect_matches :: "real \<Rightarrow> int \<Rightarrow> (real \<times> real) list \<Rightarrow> (int \<times> real) list" where
  "collect_matches ratio level [] = []"
| "collect_matches ratio level ((min_ratio, max_ratio) # rest) =
     (if min_ratio \<le> ratio \<and> ratio \<le> max_ratio
      then (level, centrality ratio min_ratio max_ratio) # collect_matches ratio (level + 1) rest
      else collect_matches ratio (level + 1) rest)"

definition find_matches :: "real \<Rightarrow> (int \<times> real) list" where
  "find_matches ratio = collect_matches ratio 0 level_ranges"

text \<open>\<^verbatim>\<open>max(xs, key=f)\<close> and \<^verbatim>\<open>min(xs, key=f)\<close> keep the first of several extremal items.\<close>

fun max_by_from :: "('a \<Rightarrow> real) \<Rightarrow> 'a \<Rightarrow> 'a list \<Rightarrow> 'a" where
  "max_by_from key best [] = best"
| "max_by_from key best (x # xs) = max_by_from key (if key x > key best then x else best) xs"

fun min_by_from :: "('a \<Rightarrow> real) \<Rightarrow> 'a \<Rightarrow> 'a list \<Rightarrow> 'a" where
  "min_by_from key best [] = best"
| "min_by_from key best (x # xs) = min_by_from key (if key x < key best then x else best) xs"

definition py_max_by :: "('a \<Rightarrow> real) \<Rightarrow> 'a list \<Rightarrow> py_error + 'a" where
  "py_max_by key xs = (case xs of [] \<Rightarrow> Inl ValueError | x # rest \<Rightarrow> Inr (max_by_from key x rest))"

definition py_min_by :: "('a \<Rightarrow> real) \<Rightarrow> 'a list \<Rightarrow> py_error + 'a" where
  "py_min_by key xs = (case xs of [] \<Rightarrow> Inl ValueError | x # rest \<Rightarrow> Inr (min_by_from key x rest))"

text \<open>The key of line 149: distance of the ratio to the nearer end of range \<open>l\<close>.\<close>

definition boundary_distance :: "real \<Rightarrow> int \<Rightarrow> real" where
  "boundary_distance ratio l =
     min \<bar>ratio - fst (level_ranges ! nat l)\<bar> \<bar>ratio - snd (level_ranges ! nat l)\<bar>"

definition closest_level :: "real \<Rightarrow> py_error + int" where
  "closest_level ratio = py_min_by (boundary_distance ratio) (map int [0..<9])"

text \<open>
  Lines 136--155: the pair (level, centrality) chosen among the matches, or, with no
  match, the closest level with confidence 0.5; the flag tells which.
\<close>

datatype choice = OutOfRange int real | BestMatch int real

definition choose_level :: "real \<Rightarrow> py_error + choice" where
  "choose_level ratio =
     (let matches = find_matches ratio
      in if matches = []
         then (case closest_level ratio of Inl e \<Rightarrow> Inl e | Inr l \<Rightarrow> Inr (OutOfRange l 0.5))
         else (case py_max_by snd matches of Inl e \<Rightarrow> Inl e
               | Inr m \<Rightarrow> Inr (BestMatch (fst m) (snd m))))"

definition required_keys :: "string list" where
  "required_keys = [''compression_ratio'', ''min_blocksize'', ''max_blocksize'']"

definition has_required :: "info_dict \<Rightarrow> bool" where
  "has_required info = list_all (has_key info) required_keys"

section \<open>\<^verbatim>\<open>flac_analyzer.estimate_compression_level\<close>\<close>

datatype third = Message string | Metrics "(string \<times> real) list"

text \<open>Lines 104--108.\<close>

definition fa_blocksize_variability :: "info_dict \<Rightarrow> py_error + real" where
  "fa_blocksize_variability info =
     (case getitem info ''min_blocksize'' of Inl e \<Rightarrow> Inl e
      | Inr mn \<Rightarrow> (case getitem info ''max_blocksize'' of Inl e \<Rightarrow> Inl e
          | Inr mx \<Rightarrow> if py_eq mn mx then Inr 0 else py_truediv mx mn))"

text \<open>Lines 110--114.\<close>

definition fa_framesize_efficiency :: "info_dict \<Rightarrow> py_error + real" where
  "fa_framesize_efficiency info =
     (case getitem info ''max_framesize'' of Inl e \<Rightarrow> Inl e
      | Inr mx \<Rightarrow> (case as_num mx of Inl e \<Rightarrow> Inl e
          | Inr x \<Rightarrow> if x > 0
              then (case getitem info ''min_framesize'' of Inl e \<Rightarrow> Inl e
                    | Inr mn \<Rightarrow> (case py_truediv mn mx of Inl e \<Rightarrow> Inl e
                        | Inr q \<Rightarrow> Inr (1 - q)))
              else Inr 0))"

definition fa_estimate_compression_level ::
    "info_dict \<Rightarrow> py_error + (int option \<times> real \<times> third)" where
  "fa_estimate_compression_level info =
     (if \<not> has_required info then Inr (None, 0, Message ''Missing required information'')
      else case getitem info ''compression_ratio'' of Inl e \<Rightarrow> Inl e
      | Inr rv \<Rightarrow> (case as_num rv of Inl e \<Rightarrow> Inl e
      | Inr ratio \<Rightarrow> (case fa_blocksize_variability info of Inl e \<Rightarrow> Inl e
      | Inr bv \<Rightarrow> (case fa_framesize_efficiency info of Inl e \<Rightarrow> Inl e
      | Inr fe \<Rightarrow>
          (let metrics = Metrics [(''compression_ratio'', ratio), (''ratio_score'', 1 - ratio),
                                  (''blocksize_variability'', bv), (''framesize_efficiency'', fe)]
           in case choose_level ratio of Inl e \<Rightarrow> Inl e
              | Inr (OutOfRange l c) \<Rightarrow> Inr (Some l, c, metrics)
              | Inr (BestMatch l c) \<Rightarrow>
                  Inr (Some l, 0.7 * c + 0.2 * fe + 0.1 * min 1 bv, metrics))))))"

section \<open>\<^verbatim>\<open>flac_level_detection.estimate_compression_level\<close>\<close>

definition estimate_level_from_file_size :: "info_dict \<Rightarrow> int \<times> real" where
  "estimate_level_from_file_size info = (5, 0.1)"

text \<open>\<^verbatim>\<open>info.get('limited_analysis', False)\<close> taken as a condition.\<close>

definition limited_flag :: "info_dict \<Rightarrow> bool" where
  "limited_flag info = (case map_of info ''limited_analysis'' of None \<Rightarrow> False | Some v \<Rightarrow> truthy v)"

text \<open>Lines 157--169.\<close>

definition ld_adjust :: "bool \<Rightarrow> int \<Rightarrow> real \<Rightarrow> real" where
  "ld_adjust fixed_blocksize level confidence =
     (if fixed_blocksize
      then (if level \<le> 2 then min (confidence * 1.2) 1.0 else confidence * 0.8)
      else (if level \<ge> 3 then min (confidence * 1.2) 1.0 else confidence * 0.8))"

definition ld_estimate_compression_level :: "info_dict \<Rightarrow> py_error + (int \<times> real)" where
  "ld_estimate_compression_level info =
     (if limited_flag info then Inr (estimate_level_from_file_size info)
      else if \<not> has_required info then Inr (5, 0.1)
      else case getitem info ''compression_ratio'' of Inl e \<Rightarrow> Inl e
      | Inr rv \<Rightarrow> (case as_num rv of Inl e \<Rightarrow> Inl e
      | Inr ratio \<Rightarrow> (case choose_level ratio of Inl e \<Rightarrow> Inl e
      | Inr (OutOfRange l c) \<Rightarrow> Inr (l, c)
      | Inr (BestMatch l c) \<Rightarrow>
          (case getitem info ''min_blocksize'' of Inl e \<Rightarrow> Inl e
           | Inr mn \<Rightarrow> (case getitem info ''max_blocksize'' of Inl e \<Rightarrow> Inl e
           | Inr mx \<Rightarrow> Inr (l, ld_adjust (py_eq mn mx) l c))))))"

section \<open>The outside world of a probe\<close>

text \<open>
  What \<^verbatim>\<open>analyze_flac_file\<close> obtains from outside the module: \<^verbatim>\<open>os.path.exists\<close>,
  \<^verbatim>\<open>os.path.getsize\<close>, \<^verbatim>\<open>subprocess.run(argv, capture_output=True, check=True)\<close>
  (its standard output, or the exception it raises: \<open>CalledProcessError\<close> on a non-zero
  status, \<open>FileNotFoundError\<close> for a missing program, another \<open>OSError\<close> otherwise), and
  the conversions \<^verbatim>\<open>int(s)\<close> and \<^verbatim>\<open>float(s)\<close> of a string, which are taken as given.
  The world does not change during one call.

  The uncompressed size is the integer part of a product of doubles, and rounding can
  move that product across an integer. The three operations of that expression are
  therefore taken from the interpreter as well, each with its own rounding: the product
  \<^verbatim>\<open>x * y\<close> of two doubles, the conversion of an int operand to a double, and the quotient
  \<^verbatim>\<open>a / b\<close> of two ints. A double is the real number it denotes; results outside the
  finite doubles are not modelled.
\<close>

record env =
  path_exists :: "string \<Rightarrow> bool"
  getsize :: "string \<Rightarrow> py_error + int"
  run :: "string list \<Rightarrow> py_error + string"
  int_of_str :: "string \<Rightarrow> py_error + int"
  float_of_str :: "string \<Rightarrow> py_error + real"
  float_mul :: "real \<Rightarrow> real \<Rightarrow> real"
  float_of_int :: "int \<Rightarrow> real"
  int_truediv :: "int \<Rightarrow> int \<Rightarrow> real"

section \<open>String methods (ASCII)\<close>

definition whitespace :: "char list" where
  "whitespace = [CHR '' '', CHR 0x09, CHR 0x0A, CHR 0x0B, CHR 0x0C, CHR 0x0D,
                 CHR 0x1C, CHR 0x1D, CHR 0x1E, CHR 0x1F]"

definition is_space :: "char \<Rightarrow> bool" where
  "is_space c = (c \<in> set whitespace)"

definition strip :: "string \<Rightarrow> string" where
  "strip s = rev (dropWhile is_space (rev (dropWhile is_space s)))"

definition is_linebreak :: "char \<Rightarrow> bool" where
  "is_linebreak c = (c \<in> set [CHR 0x0A, CHR 0x0B, CHR 0x0C, CHR 0x0D, CHR 0x1C, CHR 0x1D, CHR 0x1E])"

text \<open>\<^verbatim>\<open>str.splitlines()\<close>: CR LF is one break; there is no empty last line.\<close>

fun splitlines_from :: "string \<Rightarrow> string \<Rightarrow> string list" where
  "splitlines_from cur [] = (if cur = [] then [] else [rev cur])"
| "splitlines_from cur [c] = (if is_linebreak c then [rev cur] else [rev (c # cur)])"
| "splitlines_from cur (c # d # cs) =
     (if c = CHR 0x0D \<and> d = CHR 0x0A then rev cur # splitlines_from [] cs
      else if is_linebreak c then rev cur # splitlines_from [] (d # cs)
      else splitlines_from (c # cur) (d # cs))"

definition splitlines :: "string \<Rightarrow> string list" where
  "splitlines s = splitlines_from [] s"

definition lower_char :: "char \<Rightarrow> char" where
  "lower_char c =
     (case map_of (zip ''ABCDEFGHIJKLMNOPQRSTUVWXYZ'' ''abcdefghijklmnopqrstuvwxyz'') c of
        None \<Rightarrow> c | Some d \<Rightarrow> d)"

definition lower :: "string \<Rightarrow> string" where
  "lower s = map lower_char s"

text \<open>\<^verbatim>\<open>s.replace(' ', '_')\<close> and \<^verbatim>\<open>s.replace(' s', '')\<close>.\<close>

definition spaces_to_underscores :: "string \<Rightarrow> string" where
  "spaces_to_underscores s = map (\<lambda>c. if c = CHR '' '' then CHR ''_'' else c) s"

fun remove_space_s :: "string \<Rightarrow> string" where
  "remove_space_s (c # d # cs) =
     (if c = CHR '' '' \<and> d = CHR ''s'' then remove_space_s cs else c # remove_space_s (d # cs))"
| "remove_space_s cs = cs"

section \<open>\<^verbatim>\<open>analyze_flac_file\<close>\<close>

text \<open>\<^verbatim>\<open>int(x)\<close>: a float is truncated toward zero, a string is converted.\<close>

definition py_trunc :: "real \<Rightarrow> int" where
  "py_trunc r = (if r \<ge> 0 then \<lfloor>r\<rfloor> else \<lceil>r\<rceil>)"

fun py_int :: "env \<Rightarrow> pyval \<Rightarrow> py_error + int" where
  "py_int E (PStr s) = int_of_str E s"
| "py_int E (PInt i) = Inr i"
| "py_int E (PFloat r) = Inr (py_trunc r)"
| "py_int E (PBool b) = Inr (if b then 1 else 0)"

text \<open>The loop over the lines of the first tool's output (lines 55--61 and 45--51).\<close>

fun parse_flac_lines :: "info_dict \<Rightarrow> string list \<Rightarrow> info_dict" where
  "parse_flac_lines info [] = info"
| "parse_flac_lines info (raw # rest) =
     (let line = strip raw
      in if CHR '':'' \<in> set line
         then (let key = takeWhile (\<lambda>c. c \<noteq> CHR '':'') line;
                   val = drop 1 (dropWhile (\<lambda>c. c \<noteq> CHR '':'') line);
                   key = spaces_to_underscores (lower (strip key));
                   val = strip val
               in parse_flac_lines (setitem info key (PStr val)) rest)
         else parse_flac_lines info rest)"

text \<open>The four lines of the second tool (lines 64--69 and 54--59).\<close>

definition parse_metaflac :: "env \<Rightarrow> info_dict \<Rightarrow> string list \<Rightarrow> py_error + info_dict" where
  "parse_metaflac E info lines =
     (if length lines \<ge> 4
      then (case int_of_str E (strip (lines ! 0)) of Inl e \<Rightarrow> Inl e
        | Inr a \<Rightarrow> (case int_of_str E (strip (lines ! 1)) of Inl e \<Rightarrow> Inl e
        | Inr b \<Rightarrow> (case int_of_str E (strip (lines ! 2)) of Inl e \<Rightarrow> Inl e
        | Inr c \<Rightarrow> (case int_of_str E (strip (lines ! 3)) of Inl e \<Rightarrow> Inl e
        | Inr d \<Rightarrow>
            Inr (setitem (setitem (setitem (setitem info
                   ''min_blocksize'' (PInt a)) ''max_blocksize'' (PInt b))
                   ''min_framesize'' (PInt c)) ''max_framesize'' (PInt d))))))
      else Inr info)"

text \<open>\<^verbatim>\<open>info.get('duration', '0').replace(' s', '')\<close> converted by \<^verbatim>\<open>float\<close>.\<close>

definition duration_of :: "env \<Rightarrow> info_dict \<Rightarrow> py_error + real" where
  "duration_of E info =
     (case (case map_of info ''duration'' of None \<Rightarrow> PStr ''0'' | Some v \<Rightarrow> v) of
        PStr s \<Rightarrow> float_of_str E (remove_space_s s)
      | PInt i \<Rightarrow> Inl AttributeError
      | PFloat r \<Rightarrow> Inl AttributeError
      | PBool b \<Rightarrow> Inl AttributeError)"

text \<open>\<^verbatim>\<open>info[k] = int(info[k])\<close>, returning the number and the updated dict.\<close>

definition convert_field :: "env \<Rightarrow> info_dict \<Rightarrow> string \<Rightarrow> py_error + (int \<times> info_dict)" where
  "convert_field E info k =
     (case getitem info k of Inl e \<Rightarrow> Inl e
      | Inr v \<Rightarrow> (case py_int E v of Inl e \<Rightarrow> Inl e
          | Inr n \<Rightarrow> Inr (n, setitem info k (PInt n))))"

text \<open>
  The argument of \<^verbatim>\<open>int\<close> in lines 79 and 69,
  \<^verbatim>\<open>duration_seconds * info['sample_rate'] * info['channels'] * (info['bits_per_sample'] / 8)\<close>,
  evaluated from left to right in doubles.
\<close>

definition uncompressed_product :: "env \<Rightarrow> real \<Rightarrow> int \<Rightarrow> int \<Rightarrow> int \<Rightarrow> real" where
  "uncompressed_product E duration_seconds sample_rate channels bits_per_sample =
     float_mul E
       (float_mul E
          (float_mul E duration_seconds (float_of_int E sample_rate))
          (float_of_int E channels))
       (int_truediv E bits_per_sample 8)"

text \<open>The derived statistics (lines 72--84 and 62--74).\<close>

definition derive_statistics :: "env \<Rightarrow> int \<Rightarrow> info_dict \<Rightarrow> py_error + info_dict" where
  "derive_statistics E file_size info =
     (if has_key info ''sample_rate'' \<and> has_key info ''channels'' \<and> has_key info ''bits_per_sample''
      then (case convert_field E info ''sample_rate'' of Inl e \<Rightarrow> Inl e
        | Inr (sample_rate, info1) \<Rightarrow>
          (case convert_field E info1 ''channels'' of Inl e \<Rightarrow> Inl e
        | Inr (channels, info2) \<Rightarrow>
          (case convert_field E info2 ''bits_per_sample'' of Inl e \<Rightarrow> Inl e
        | Inr (bits_per_sample, info3) \<Rightarrow>
          (case duration_of E info3 of Inl e \<Rightarrow> Inl e
        | Inr duration_seconds \<Rightarrow>
          (let uncompressed_bytes =
                 py_trunc (uncompressed_product E duration_seconds sample_rate channels
                             bits_per_sample);
               info4 = setitem info3 ''uncompressed_size'' (PInt uncompressed_bytes)
           in if uncompressed_bytes > 0
              then Inr (setitem info4 ''compression_ratio''
                          (PFloat (int_truediv E file_size uncompressed_bytes)))
              else Inr info4)))))
      else Inr info)"

text \<open>
  The body of the \<^verbatim>\<open>try\<close> block from the two analysis commands to \<^verbatim>\<open>return info\<close>;
  the same text in both modules.
\<close>

definition flac_argv :: "string \<Rightarrow> string list" where
  "flac_argv flac_file = [''flac'', ''--analyze'', ''--show-format'', ''--show-streaminfo'', flac_file]"

definition metaflac_argv :: "string \<Rightarrow> string list" where
  "metaflac_argv flac_file =
     [''metaflac'', ''--show-min-blocksize'', ''--show-max-blocksize'',
      ''--show-min-framesize'', ''--show-max-framesize'', flac_file]"

definition probe_body :: "env \<Rightarrow> string \<Rightarrow> int \<Rightarrow> py_error + info_dict" where
  "probe_body E flac_file file_size =
     (case run E (flac_argv flac_file) of Inl e \<Rightarrow> Inl e
      | Inr flac_stdout \<Rightarrow> (case run E (metaflac_argv flac_file) of Inl e \<Rightarrow> Inl e
      | Inr metaflac_stdout \<Rightarrow>
          (let info = setitem [] ''file_size'' (PInt file_size);
               info = parse_flac_lines info (splitlines flac_stdout)
           in case parse_metaflac E info (splitlines metaflac_stdout) of Inl e \<Rightarrow> Inl e
              | Inr info \<Rightarrow> derive_statistics E file_size info)))"

text \<open>\<^verbatim>\<open>flac_analyzer.analyze_flac_file\<close>: both handlers return \<^verbatim>\<open>None\<close>.\<close>

definition fa_analyze_flac_file :: "env \<Rightarrow> string \<Rightarrow> py_error + info_dict option" where
  "fa_analyze_flac_file E flac_file =
     (if \<not> path_exists E flac_file then Inl FileNotFoundError
      else case getsize E flac_file of Inl e \<Rightarrow> Inl e
      | Inr file_size \<Rightarrow>
          (case probe_body E flac_file file_size of
             Inl e \<Rightarrow> Inr None
           | Inr info \<Rightarrow> Inr (Some info)))"

text \<open>\<^verbatim>\<open>flac_level_detection.analyze_flac_file\<close>.\<close>

fun tool_unavailable :: "py_error \<Rightarrow> bool" where
  "tool_unavailable (CalledProcessError msg) = True"
| "tool_unavailable FileNotFoundError = True"
| "tool_unavailable e = False"

definition limited_info :: "int \<Rightarrow> info_dict" where
  "limited_info file_size = [(''file_size'', PInt file_size), (''limited_analysis'', PBool True)]"

definition limited_info_error :: "int \<Rightarrow> string \<Rightarrow> info_dict" where
  "limited_info_error file_size msg =
     [(''file_size'', PInt file_size), (''error'', PStr msg), (''limited_analysis'', PBool True)]"

text \<open>The outer handlers of lines 88--101.\<close>

fun ld_handle :: "int \<Rightarrow> py_error \<Rightarrow> info_dict option" where
  "ld_handle file_size (CalledProcessError msg) = Some (limited_info_error file_size msg)"
| "ld_handle file_size e = None"

definition ld_analyze_flac_file :: "env \<Rightarrow> string \<Rightarrow> py_error + info_dict option" where
  "ld_analyze_flac_file E flac_file =
     (if \<not> path_exists E flac_file then Inr None
      else case getsize E flac_file of Inl e \<Rightarrow> Inl e
      | Inr file_size \<Rightarrow>
          (case run E [''flac'', ''--version''] of
             Inl e \<Rightarrow> if tool_unavailable e then Inr (Some (limited_info file_size))
                      else Inr (ld_handle file_size e)
           | Inr out1 \<Rightarrow>
          (case run E [''metaflac'', ''--version''] of
             Inl e \<Rightarrow> if tool_unavailable e then Inr (Some (limited_info file_size))
                      else Inr (ld_handle file_size e)
           | Inr out2 \<Rightarrow>
          (case probe_body E flac_file file_size of
             Inl e \<Rightarrow> Inr (ld_handle file_size e)
           | Inr info \<Rightarrow> Inr (Some info)))))"

section \<open>\<^verbatim>\<open>get_flac_compression_level\<close>\<close>

text \<open>The \<^verbatim>\<open>try\<close> block of lines 190--206; \<^verbatim>\<open>not info\<close> holds for \<^verbatim>\<open>None\<close> and for an empty dict.\<close>

definition level_attempt :: "env \<Rightarrow> string \<Rightarrow> pyval \<Rightarrow> py_error + int" where
  "level_attempt E flac_file threshold =
     (case ld_analyze_flac_file E flac_file of Inl e \<Rightarrow> Inl e
      | Inr None \<Rightarrow> Inr 5
      | Inr (Some info) \<Rightarrow>
          if info = [] then Inr 5
          else (case ld_estimate_compression_level info of Inl e \<Rightarrow> Inl e
            | Inr (level, confidence) \<Rightarrow>
                (case as_num threshold of Inl e \<Rightarrow> Inl e
                 | Inr t \<Rightarrow> if confidence < t then Inr 5 else Inr level)))"

text \<open>The \<^verbatim>\<open>except Exception\<close> of lines 207--209 turns every exception into level 5.\<close>

definition get_flac_compression_level :: "env \<Rightarrow> string \<Rightarrow> pyval \<Rightarrow> int" where
  "get_flac_compression_level E flac_file threshold =
     (case level_attempt E flac_file threshold of Inl e \<Rightarrow> 5 | Inr level \<Rightarrow> level)"

section \<open>Concrete inputs\<close>

text \<open>The scenario of the specification: ratio 0.59, blocks 4096/4096, frames 10/20.\<close>

definition scenario_info :: info_dict where
  "scenario_info =
     [(''compression_ratio'', PFloat 0.59), (''min_blocksize'', PInt 4096),
      (''max_blocksize'', PInt 4096), (''min_framesize'', PInt 10), (''max_framesize'', PInt 20)]"

text \<open>The same with the two frame sizes the other way round.\<close>

definition inverted_frames_info :: info_dict where
  "inverted_frames_info =
     [(''compression_ratio'', PFloat 0.59), (''min_blocksize'', PInt 4096),
      (''max_blocksize'', PInt 4096), (''min_framesize'', PInt 100), (''max_framesize'', PInt 10)]"

text \<open>The three required keys and no frame sizes.\<close>

definition no_framesize_info :: info_dict where
  "no_framesize_info =
     [(''compression_ratio'', PFloat 0.59), (''min_blocksize'', PInt 4096),
      (''max_blocksize'', PInt 4096)]"

text \<open>A minimum block size of zero beside a positive maximum.\<close>

definition zero_min_block_info :: info_dict where
  "zero_min_block_info =
     [(''compression_ratio'', PFloat 0.59), (''min_blocksize'', PInt 0),
      (''max_blocksize'', PInt 4096), (''min_framesize'', PInt 10), (''max_framesize'', PInt 20)]"

text \<open>A ratio on the boundary 0.70 that levels 0 and 2 share, and one below the table.\<close>

definition boundary_info :: info_dict where
  "boundary_info =
     [(''compression_ratio'', PFloat 0.70), (''min_blocksize'', PInt 4096),
      (''max_blocksize'', PInt 4096), (''min_framesize'', PInt 10), (''max_framesize'', PInt 20)]"




text \<open>
  Conversions of the few numerals the sample worlds print. The sample worlds multiply
  and divide exactly: every product and quotient they form below is 0, 1/2 or an
  integer below two million, which a double holds without rounding.
\<close>

definition table_int :: "string \<Rightarrow> py_error + int" where
  "table_int s =
     (case map_of [(''44100'', 44100), (''2'', 2), (''16'', 16), (''4096'', 4096),
                   (''14'', 14), (''9000'', 9000)] s of
        None \<Rightarrow> Inl ValueError | Some n \<Rightarrow> Inr n)"

definition table_float :: "string \<Rightarrow> py_error + real" where
  "table_float s =
     (case map_of [(''0'', 0), (''10.5'', 10.5)] s of
        None \<Rightarrow> Inl ValueError | Some r \<Rightarrow> Inr r)"

definition nl :: string where
  "nl = [CHR 0x0A]"

text \<open>A world in which no path exists.\<close>

definition env_missing :: env where
  "env_missing =
     \<lparr> path_exists = (\<lambda>p. False), getsize = (\<lambda>p. Inl FileNotFoundError),
       run = (\<lambda>argv. Inr []), int_of_str = table_int, float_of_str = table_float,
       float_mul = (\<lambda>x y. x * y), float_of_int = real_of_int,
       int_truediv = (\<lambda>a b. real_of_int a / real_of_int b) \<rparr>"

text \<open>A world with a file of 1000 bytes and no tool installed.\<close>

definition env_no_tools :: env where
  "env_no_tools =
     \<lparr> path_exists = (\<lambda>p. p = ''song.flac''), getsize = (\<lambda>p. Inr 1000),
       run = (\<lambda>argv. Inl FileNotFoundError), int_of_str = table_int, float_of_str = table_float,
       float_mul = (\<lambda>x y. x * y), float_of_int = real_of_int,
       int_truediv = (\<lambda>a b. real_of_int a / real_of_int b) \<rparr>"

text \<open>A world whose tools answer \<^verbatim>\<open>--version\<close> and exit with status 1 on the file.\<close>

definition env_exit_1 :: env where
  "env_exit_1 =
     \<lparr> path_exists = (\<lambda>p. p = ''song.flac''), getsize = (\<lambda>p. Inr 1000),
       run = (\<lambda>argv. if argv = [''flac'', ''--version''] \<or> argv = [''metaflac'', ''--version'']
                      then Inr ''1.4.3'' else Inl (CalledProcessError ''exit status 1'')),
       int_of_str = table_int, float_of_str = table_float,
       float_mul = (\<lambda>x y. x * y), float_of_int = real_of_int,
       int_truediv = (\<lambda>a b. real_of_int a / real_of_int b) \<rparr>"


text \<open>A world whose first tool prints a ratio that is not a number, and three sizes only.\<close>

definition env_text_ratio :: env where
  "env_text_ratio =
     \<lparr> path_exists = (\<lambda>p. p = ''song.flac''), getsize = (\<lambda>p. Inr 1000),
       run = (\<lambda>argv.
                if argv = flac_argv ''song.flac''
                then Inr (''compression_ratio: high'' @ nl @ ''min_blocksize: 4096'' @ nl
                          @ ''max_blocksize: 4096'' @ nl)
                else Inr []),
       int_of_str = table_int, float_of_str = table_float,
       float_mul = (\<lambda>x y. x * y), float_of_int = real_of_int,
       int_truediv = (\<lambda>a b. real_of_int a / real_of_int b) \<rparr>"


text \<open>
  Following the specification's words, a boundary shared by two ranges of the table:
  an end point of range \<open>i\<close> that is also an end point of a later range \<open>j\<close>.
\<close>

definition shared_boundaries :: "(int \<times> int \<times> real) list" where
  "shared_boundaries =
     concat (map (\<lambda>(i, lo_i, hi_i).
       concat (map (\<lambda>(j, lo_j, hi_j).
         concat (map (\<lambda>b. if i < j \<and> (b = lo_j \<or> b = hi_j) then [(int i, int j, b)] else [])
                     [lo_i, hi_i]))
         (enumerate 0 level_ranges)))
       (enumerate 0 level_ranges))"

section \<open>Properties of the matching loop\<close>

lemmas estimator_defs =
  has_required_def required_keys_def has_key_def getitem_def limited_flag_def
  fa_blocksize_variability_def fa_framesize_efficiency_def py_truediv_def
  fa_estimate_compression_level_def ld_estimate_compression_level_def ld_adjust_def
  estimate_level_from_file_size_def

lemmas choice_defs =
  choose_level_def find_matches_def level_ranges_def centrality_def py_max_by_def

lemma centrality_bounds:
  assumes "lo \<le> r" and "r \<le> hi"
  shows "0 \<le> centrality r lo hi \<and> centrality r lo hi \<le> 1"
proof (cases "hi - lo > 0")
  case False
  then show ?thesis by (simp add: centrality_def)
next
  case True
  define q where "q = (r - lo) / (hi - lo)"
  have q0: "0 \<le> q" unfolding q_def using assms True by simp
  have q1: "q \<le> 1" unfolding q_def using assms True by (simp add: field_simps)
  have c: "centrality r lo hi = 1 - \<bar>q - 0.5\<bar> * 2"
    using True by (simp add: centrality_def q_def)
  show ?thesis unfolding c using q0 q1 by (simp add: abs_if)
qed

lemma collect_matches_props:
  "(l, c) \<in> set (collect_matches r start rs) \<Longrightarrow>
     start \<le> l \<and> l < start + int (length rs) \<and> 0 \<le> c \<and> c \<le> 1"
proof (induction rs arbitrary: start)
  case Nil
  then show ?case by simp
next
  case (Cons p rs)
  obtain lo hi where p: "p = (lo, hi)" by (cases p)
  show ?case
  proof (cases "(l, c) \<in> set (collect_matches r (start + 1) rs)")
    case True
    from Cons.IH [OF True] show ?thesis by simp
  next
    case False
    with Cons.prems p have "lo \<le> r" "r \<le> hi" "l = start" "c = centrality r lo hi"
      by (auto split: if_splits)
    then show ?thesis using centrality_bounds [of lo r hi] by simp
  qed
qed

lemma find_matches_props:
  "(l, c) \<in> set (find_matches r) \<Longrightarrow> 0 \<le> l \<and> l \<le> 8 \<and> 0 \<le> c \<and> c \<le> 1"
  using collect_matches_props [of l c r 0 level_ranges]
  by (simp add: find_matches_def level_ranges_def)


lemma max_by_from_mem: "max_by_from key best xs \<in> set (best # xs)"
  by (induction xs arbitrary: best) (auto split: if_splits)

lemma min_by_from_mem: "min_by_from key best xs \<in> set (best # xs)"
  by (induction xs arbitrary: best) (auto split: if_splits)

lemma min_by_from_le_best: "key (min_by_from key best xs) \<le> key best"
proof (induction xs arbitrary: best)
  case Nil
  then show ?case by simp
next
  case (Cons y ys)
  have "key (min_by_from key (if key y < key best then y else best) ys)
          \<le> key (if key y < key best then y else best)"
    by (rule Cons.IH)
  also have "\<dots> \<le> key best" by simp
  finally show ?case by simp
qed

lemma min_by_from_le_elem: "x \<in> set xs \<Longrightarrow> key (min_by_from key best xs) \<le> key x"
proof (induction xs arbitrary: best)
  case Nil
  then show ?case by simp
next
  case (Cons y ys)
  show ?case
  proof (cases "x = y")
    case True
    have "key (min_by_from key (if key y < key best then y else best) ys)
            \<le> key (if key y < key best then y else best)"
      by (rule min_by_from_le_best)
    also have "\<dots> \<le> key y" by simp
    finally show ?thesis using True by simp
  next
    case False
    with Cons.prems have "x \<in> set ys" by simp
    from Cons.IH [OF this] show ?thesis by simp
  qed
qed

lemma min_by_from_le: "x \<in> set (best # xs) \<Longrightarrow> key (min_by_from key best xs) \<le> key x"
  using min_by_from_le_best [of key best xs] min_by_from_le_elem [of x xs key best] by auto

lemma closest_level_total:
  "\<exists>l. closest_level r = Inr l \<and> 0 \<le> l \<and> l \<le> 8 \<and>
       (\<forall>k. 0 \<le> k \<and> k \<le> 8 \<longrightarrow> boundary_distance r l \<le> boundary_distance r k)"
proof -
  have up: "map int [0..<9] = 0 # map int [1..<9]"
    by (simp add: upt_conv_Cons)
  define l where "l = min_by_from (boundary_distance r) 0 (map int [1..<9])"
  have cl: "closest_level r = Inr l"
    by (simp add: closest_level_def py_min_by_def up l_def)
  have mem: "l \<in> set (map int [0..<9])"
    unfolding l_def up by (rule min_by_from_mem)
  have rng: "0 \<le> l \<and> l \<le> 8" using mem by auto
  have le: "boundary_distance r l \<le> boundary_distance r k" if "0 \<le> k" "k \<le> 8" for k
  proof -
    have "k \<in> set (map int [0..<9])"
      using that by (auto simp: image_iff intro!: bexI [of _ "nat k"])
    then show ?thesis unfolding l_def up by (rule min_by_from_le)
  qed
  show ?thesis using cl rng le by blast
qed

text \<open>The choice never raises: it is the closest level, or one of the matches.\<close>

lemma choose_level_total:
  "(\<exists>l. choose_level r = Inr (OutOfRange l 0.5) \<and> find_matches r = [] \<and>
        closest_level r = Inr l \<and> 0 \<le> l \<and> l \<le> 8) \<or>
   (\<exists>l c. choose_level r = Inr (BestMatch l c) \<and> (l, c) \<in> set (find_matches r) \<and>
        0 \<le> l \<and> l \<le> 8 \<and> 0 \<le> c \<and> c \<le> 1)"
proof (cases "find_matches r")
  case Nil
  obtain l where "closest_level r = Inr l" "0 \<le> l" "l \<le> 8"
    using closest_level_total [of r] by blast
  then show ?thesis using Nil by (simp add: choose_level_def)
next
  case (Cons m ms)
  define b where "b = max_by_from snd m ms"
  have mem: "b \<in> set (find_matches r)"
    unfolding b_def Cons by (rule max_by_from_mem)
  then have "(fst b, snd b) \<in> set (find_matches r)" by simp
  from find_matches_props [OF this] mem
  show ?thesis using Cons by (simp add: choose_level_def py_max_by_def b_def)
qed

lemma choose_level_cases:
  obtains (out) l where "choose_level r = Inr (OutOfRange l 0.5)" "find_matches r = []"
      "closest_level r = Inr l" "0 \<le> l" "l \<le> 8"
    | (best) l c where "choose_level r = Inr (BestMatch l c)" "(l, c) \<in> set (find_matches r)"
      "0 \<le> l" "l \<le> 8" "0 \<le> c" "c \<le> 1"
  using choose_level_total [of r] by blast

section \<open>The estimators on a dict with numeric fields\<close>

text \<open>
  With a float ratio and integer sizes the metric stage of \<^verbatim>\<open>flac_analyzer\<close> succeeds
  unless it divides by a zero minimum block size.
\<close>

lemma fa_blocksize_variability_int:
  assumes "map_of info ''min_blocksize'' = Some (PInt bmin)"
    and "map_of info ''max_blocksize'' = Some (PInt bmax)"
  shows "fa_blocksize_variability info =
           (if bmin = bmax then Inr 0
            else if bmin = 0 then Inl ZeroDivisionError
            else Inr (real_of_int bmax / real_of_int bmin))"
  using assms by (simp add: fa_blocksize_variability_def getitem_def py_truediv_def)

lemma fa_framesize_efficiency_int:
  assumes "map_of info ''min_framesize'' = Some (PInt fmin)"
    and "map_of info ''max_framesize'' = Some (PInt fmax)"
  shows "fa_framesize_efficiency info =
           Inr (if fmax > 0 then 1 - real_of_int fmin / real_of_int fmax else 0)"
  using assms by (simp add: fa_framesize_efficiency_def getitem_def py_truediv_def)

lemma has_required_numeric:
  assumes "map_of info ''compression_ratio'' = Some rv"
    and "map_of info ''min_blocksize'' = Some mn"
    and "map_of info ''max_blocksize'' = Some mx"
  shows "has_required info"
  using assms by (simp add: has_required_def required_keys_def has_key_def)

lemma fa_estimate_numeric:
  assumes "map_of info ''compression_ratio'' = Some (PFloat r)"
    and "map_of info ''min_blocksize'' = Some (PInt bmin)"
    and "map_of info ''max_blocksize'' = Some (PInt bmax)"
    and "fa_blocksize_variability info = Inr bv"
    and "fa_framesize_efficiency info = Inr fe"
  shows "fa_estimate_compression_level info =
     (case choose_level r of Inl e \<Rightarrow> Inl e
      | Inr (OutOfRange l c) \<Rightarrow> Inr (Some l, c,
            Metrics [(''compression_ratio'', r), (''ratio_score'', 1 - r),
                     (''blocksize_variability'', bv), (''framesize_efficiency'', fe)])
      | Inr (BestMatch l c) \<Rightarrow> Inr (Some l, 0.7 * c + 0.2 * fe + 0.1 * min 1 bv,
            Metrics [(''compression_ratio'', r), (''ratio_score'', 1 - r),
                     (''blocksize_variability'', bv), (''framesize_efficiency'', fe)]))"
  using assms has_required_numeric [of info "PFloat r" "PInt bmin" "PInt bmax"]
  by (simp add: fa_estimate_compression_level_def getitem_def Let_def)

lemma ld_estimate_numeric:
  assumes "map_of info ''compression_ratio'' = Some (PFloat r)"
    and "map_of info ''min_blocksize'' = Some (PInt bmin)"
    and "map_of info ''max_blocksize'' = Some (PInt bmax)"
    and "\<not> limited_flag info"
  shows "ld_estimate_compression_level info =
     (case choose_level r of Inl e \<Rightarrow> Inl e
      | Inr (OutOfRange l c) \<Rightarrow> Inr (l, c)
      | Inr (BestMatch l c) \<Rightarrow> Inr (l, ld_adjust (bmin = bmax) l c))"
  using assms has_required_numeric [of info "PFloat r" "PInt bmin" "PInt bmax"]
  by (simp add: ld_estimate_compression_level_def getitem_def
           split: sum.splits choice.splits)

text \<open>
  Whenever \<^verbatim>\<open>flac_analyzer\<close> returns a level for such a dict, \<^verbatim>\<open>flac_level_detection\<close>
  returns the same level.
\<close>

lemma estimators_agree_on_level:
  assumes "map_of info ''compression_ratio'' = Some (PFloat r)"
    and "map_of info ''min_blocksize'' = Some (PInt bmin)"
    and "map_of info ''max_blocksize'' = Some (PInt bmax)"
    and "\<not> limited_flag info"
    and "fa_estimate_compression_level info = Inr (lv, c, m)"
  shows "\<exists>l c'. lv = Some l \<and> ld_estimate_compression_level info = Inr (l, c')"
proof -
  have req: "has_required info"
    using assms(1-3) by (rule has_required_numeric)
  from assms(5) req assms(1) obtain ch where ch: "choose_level r = Inr ch"
    by (auto simp: fa_estimate_compression_level_def getitem_def Let_def
             split: sum.splits)
  show ?thesis
  proof (cases ch)
    case (OutOfRange l c0)
    with ch assms req show ?thesis
      by (auto simp: fa_estimate_compression_level_def ld_estimate_compression_level_def
               getitem_def Let_def split: sum.splits)
  next
    case (BestMatch l c0)
    with ch assms req show ?thesis
      by (auto simp: fa_estimate_compression_level_def ld_estimate_compression_level_def
               getitem_def Let_def split: sum.splits)
  qed
qed

section \<open>Claims about the estimators\<close>

text \<open>
  C1 (as the specification states it): for ratio 0.59, block sizes 4096 and 4096 and
  frame sizes 10 and 20, only level 5 matches and the result is level 5 with centrality
  0.4 and confidence 0.38. This fails on the code: 0.59 also lies in level 6's range
  [0.56, 0.60].
\<close>

theorem scenario_is_not_level_5:
  "map fst (find_matches 0.59) \<noteq> [5] \<and>
   fa_estimate_compression_level scenario_info \<noteq>
     Inr (Some 5, 0.38, Metrics [(''compression_ratio'', 0.59), (''ratio_score'', 0.41),
                                 (''blocksize_variability'', 0), (''framesize_efficiency'', 0.5)])"
  by (simp add: scenario_info_def estimator_defs choice_defs)

text \<open>
  C1 (amended): for that input the ratio matches level 5 with centrality 0.4 and level 6
  with centrality 0.5, so level 6 is chosen; the block-size variability is 0 and the
  frame-size efficiency 0.5; \<^verbatim>\<open>flac_analyzer\<close> returns level 6 with confidence
  0.7 * 0.5 + 0.2 * 0.5 + 0.1 * 0 = 0.45, and \<^verbatim>\<open>flac_level_detection\<close> returns level 6
  with confidence 0.5 * 0.8 = 0.4.
\<close>

theorem scenario_is_level_6:
  "find_matches 0.59 = [(5, 0.4), (6, 0.5)] \<and>
   choose_level 0.59 = Inr (BestMatch 6 0.5) \<and>
   fa_blocksize_variability scenario_info = Inr 0 \<and>
   fa_framesize_efficiency scenario_info = Inr 0.5 \<and>
   fa_estimate_compression_level scenario_info =
     Inr (Some 6, 0.45, Metrics [(''compression_ratio'', 0.59), (''ratio_score'', 0.41),
                                 (''blocksize_variability'', 0), (''framesize_efficiency'', 0.5)]) \<and>
   ld_estimate_compression_level scenario_info = Inr (6, 0.4)"
  by (simp add: scenario_info_def estimator_defs choice_defs)

text \<open>
  C4: \<^verbatim>\<open>estimate_compression_level\<close> raises no exception on a dict that has the three
  required keys and no frame sizes. In \<^verbatim>\<open>flac_analyzer\<close> the lookup of
  \<^verbatim>\<open>info['max_framesize']\<close> raises KeyError on such a dict, while
  \<^verbatim>\<open>flac_level_detection\<close>, which reads no frame size, returns a result.
\<close>

theorem missing_framesize_raises_key_error:
  "has_required no_framesize_info \<and>
   fa_estimate_compression_level no_framesize_info = Inl KeyError \<and>
   ld_estimate_compression_level no_framesize_info = Inr (6, 0.4)"
  by (simp add: no_framesize_info_def estimator_defs choice_defs)

text \<open>
  C10: on a dict with the five numeric fields and no limited-analysis flag both
  estimators return the same level. With a minimum block size of 0 and a maximum of
  4096, \<^verbatim>\<open>flac_analyzer\<close> raises ZeroDivisionError in \<^verbatim>\<open>max_blocksize / min_blocksize\<close>,
  while \<^verbatim>\<open>flac_level_detection\<close> returns level 6.
\<close>

theorem zero_min_blocksize_raises:
  "\<not> limited_flag zero_min_block_info \<and>
   fa_estimate_compression_level zero_min_block_info = Inl ZeroDivisionError \<and>
   ld_estimate_compression_level zero_min_block_info = Inr (6, 0.6)"
  by (simp add: zero_min_block_info_def estimator_defs choice_defs)

text \<open>
  C3 (as the specification states it): for every dict of finite numbers the confidence
  lies in [0,1], the blend being clamped. This fails on \<^verbatim>\<open>flac_analyzer\<close>, whose blend
  is not clamped: with a minimum frame size of 100 above a maximum of 10 the frame-size
  efficiency is -9 and the confidence -1.45.
\<close>

theorem inverted_frames_confidence_negative:
  "fa_estimate_compression_level inverted_frames_info =
     Inr (Some 6, - 1.45, Metrics [(''compression_ratio'', 0.59), (''ratio_score'', 0.41),
                                   (''blocksize_variability'', 0), (''framesize_efficiency'', - 9)]) \<and>
   fst (snd (projr (fa_estimate_compression_level inverted_frames_info))) < 0"
  by (simp add: inverted_frames_info_def estimator_defs choice_defs)

lemma ld_adjust_bounds:
  assumes "0 \<le> c" and "c \<le> 1"
  shows "0 \<le> ld_adjust fixed l c \<and> ld_adjust fixed l c \<le> 1"
  using assms by (simp add: ld_adjust_def min_def)

lemma blend_bounds:
  fixes c fe bv :: real
  assumes "0 \<le> c" "c \<le> 1" "0 \<le> fe" "fe \<le> 1" "0 \<le> bv"
  shows "0 \<le> 0.7 * c + 0.2 * fe + 0.1 * min 1 bv \<and> 0.7 * c + 0.2 * fe + 0.1 * min 1 bv \<le> 1"
proof -
  have m: "0 \<le> min 1 bv" "min 1 bv \<le> 1" using assms(5) by simp_all
  show ?thesis using assms(1-4) m by simp
qed

text \<open>
  C3 (amended): for every dict with a float ratio and integer sizes such that
  \<open>0 < min_blocksize\<close>, \<open>0 \<le> max_blocksize\<close> and \<open>0 \<le> min_framesize \<le> max_framesize\<close>,
  both estimators return a confidence in [0,1]; \<^verbatim>\<open>flac_analyzer\<close> reaches this with
  no clamp, as a weighted mean of three numbers in [0,1].
\<close>

theorem confidence_in_unit_interval:
  assumes "map_of info ''compression_ratio'' = Some (PFloat r)"
    and "map_of info ''min_blocksize'' = Some (PInt bmin)"
    and "map_of info ''max_blocksize'' = Some (PInt bmax)"
    and "map_of info ''min_framesize'' = Some (PInt fmin)"
    and "map_of info ''max_framesize'' = Some (PInt fmax)"
    and "0 < bmin" and "0 \<le> bmax" and "0 \<le> fmin" and "fmin \<le> fmax"
  shows "(\<exists>l c m. fa_estimate_compression_level info = Inr (l, c, m) \<and> 0 \<le> c \<and> c \<le> 1) \<and>
         (\<exists>l c. ld_estimate_compression_level info = Inr (l, c) \<and> 0 \<le> c \<and> c \<le> 1)"
proof
  define bv where "bv = (if bmin = bmax then 0 else real_of_int bmax / real_of_int bmin)"
  define fe where "fe = (if fmax > 0 then 1 - real_of_int fmin / real_of_int fmax else 0)"
  have bv: "fa_blocksize_variability info = Inr bv"
    using fa_blocksize_variability_int [OF assms(2,3)] assms(6) by (simp add: bv_def)
  have fe: "fa_framesize_efficiency info = Inr fe"
    using fa_framesize_efficiency_int [OF assms(4,5)] by (simp add: fe_def)
  have bv0: "0 \<le> bv"
    using assms(6,7) by (simp add: bv_def)
  have fe0: "0 \<le> fe" and fe1: "fe \<le> 1"
    using assms(8,9) by (simp_all add: fe_def field_simps)
  note fa = fa_estimate_numeric [OF assms(1-3) bv fe]
  show "\<exists>l c m. fa_estimate_compression_level info = Inr (l, c, m) \<and> 0 \<le> c \<and> c \<le> 1"
  proof (cases r rule: choose_level_cases)
    case (out l)
    from fa out(1) have e: "fa_estimate_compression_level info =
        Inr (Some l, 1 / 2, Metrics [(''compression_ratio'', r), (''ratio_score'', 1 - r),
                                     (''blocksize_variability'', bv), (''framesize_efficiency'', fe)])"
      by simp
    show ?thesis by (intro exI conjI, rule e) simp_all
  next
    case (best l c)
    from fa best(1) have e: "fa_estimate_compression_level info =
        Inr (Some l, 0.7 * c + 0.2 * fe + 0.1 * min 1 bv,
             Metrics [(''compression_ratio'', r), (''ratio_score'', 1 - r),
                      (''blocksize_variability'', bv), (''framesize_efficiency'', fe)])"
      by simp
    show ?thesis
      by (intro exI conjI, rule e) (simp_all only: blend_bounds [OF best(5,6) fe0 fe1 bv0])
  qed
next
  show "\<exists>l c. ld_estimate_compression_level info = Inr (l, c) \<and> 0 \<le> c \<and> c \<le> 1"
  proof (cases "limited_flag info")
    case True
    then have e: "ld_estimate_compression_level info = Inr (5, 1 / 10)"
      by (simp add: ld_estimate_compression_level_def estimate_level_from_file_size_def)
    show ?thesis by (intro exI conjI, rule e) simp_all
  next
    case False
    note ld = ld_estimate_numeric [OF assms(1-3) False]
    show ?thesis
    proof (cases r rule: choose_level_cases)
      case (out l)
      from ld out(1) have e: "ld_estimate_compression_level info = Inr (l, 1 / 2)"
        by simp
      show ?thesis by (intro exI conjI, rule e) simp_all
    next
      case (best l c)
      from ld best(1) have e: "ld_estimate_compression_level info =
          Inr (l, ld_adjust (bmin = bmax) l c)"
        by simp
      show ?thesis
        by (intro exI conjI, rule e) (simp_all only: ld_adjust_bounds [OF best(5,6)])
    qed
  qed
qed

theorem confidence_in_unit_interval_witness:
  "map_of scenario_info ''compression_ratio'' = Some (PFloat 0.59) \<and>
   map_of scenario_info ''min_blocksize'' = Some (PInt 4096) \<and>
   map_of scenario_info ''max_blocksize'' = Some (PInt 4096) \<and>
   map_of scenario_info ''min_framesize'' = Some (PInt 10) \<and>
   map_of scenario_info ''max_framesize'' = Some (PInt 20) \<and>
   (\<exists>l c m. fa_estimate_compression_level scenario_info = Inr (l, c, m) \<and> 0 \<le> c \<and> c \<le> 1) \<and>
   (\<exists>l c. ld_estimate_compression_level scenario_info = Inr (l, c) \<and> 0 \<le> c \<and> c \<le> 1)"
proof -
  have h: "map_of scenario_info ''compression_ratio'' = Some (PFloat 0.59)"
    "map_of scenario_info ''min_blocksize'' = Some (PInt 4096)"
    "map_of scenario_info ''max_blocksize'' = Some (PInt 4096)"
    "map_of scenario_info ''min_framesize'' = Some (PInt 10)"
    "map_of scenario_info ''max_framesize'' = Some (PInt 20)"
    by (simp_all add: scenario_info_def)
  have n: "(0::int) < 4096" "(0::int) \<le> 4096" "(0::int) \<le> 10" "(10::int) \<le> 20"
    by simp_all
  show ?thesis
    using h confidence_in_unit_interval [OF h n] by simp
qed

section \<open>Boundaries of the table\<close>

lemma shared_boundaries_eval:
  "shared_boundaries =
     [(0, 2, 7 / 10), (1, 3, 67 / 100), (2, 4, 13 / 20), (4, 6, 3 / 5), (5, 7, 29 / 50),
      (6, 8, 14 / 25)]"
  by (simp add: shared_boundaries_def level_ranges_def enumerate_eq_zip upt_conv_Cons)

text \<open>
  C8 (as the specification states it): at a boundary shared by two ranges both levels
  match with centrality 0 and the lower of the two is returned. This fails on the code:
  0.70 ends the ranges of levels 0 and 2, but it also lies inside level 1's range with
  centrality 0.75, and level 1 is returned.
\<close>

theorem boundary_070_returns_level_1:
  "(0, 2, 0.70) \<in> set shared_boundaries \<and>
   find_matches 0.70 = [(0, 0), (1, 0.75), (2, 0)] \<and>
   ld_estimate_compression_level boundary_info = Inr (1, 0.9) \<and>
   fa_estimate_compression_level boundary_info =
     Inr (Some 1, 0.625, Metrics [(''compression_ratio'', 0.70), (''ratio_score'', 0.30),
                                  (''blocksize_variability'', 0), (''framesize_efficiency'', 0.5)])"
  by (simp add: shared_boundaries_eval boundary_info_def estimator_defs choice_defs)

lemma boundary_matches:
  "find_matches (7 / 10) = [(0, 0), (1, 3 / 4), (2, 0)]"
  "find_matches (67 / 100) = [(1, 0), (2, 4 / 5), (3, 0)]"
  "find_matches (13 / 20) = [(2, 0), (3, 4 / 5), (4, 0)]"
  "find_matches (3 / 5) = [(4, 0), (5, 4 / 5), (6, 0)]"
  "find_matches (29 / 50) = [(5, 0), (6, 1), (7, 0)]"
  "find_matches (14 / 25) = [(6, 0), (7, 1), (8, 0)]"
  by (simp_all add: find_matches_def level_ranges_def centrality_def)

lemma boundary_choices:
  "choose_level (7 / 10) = Inr (BestMatch 1 (3 / 4))"
  "choose_level (67 / 100) = Inr (BestMatch 2 (4 / 5))"
  "choose_level (13 / 20) = Inr (BestMatch 3 (4 / 5))"
  "choose_level (3 / 5) = Inr (BestMatch 5 (4 / 5))"
  "choose_level (29 / 50) = Inr (BestMatch 6 1)"
  "choose_level (14 / 25) = Inr (BestMatch 7 1)"
  by (simp_all add: choose_level_def py_max_by_def boundary_matches)

lemma shared_boundary_choice:
  assumes "(i, j, b) \<in> set shared_boundaries"
  obtains c where "j = i + 2" and "(i, 0) \<in> set (find_matches b)"
    and "(j, 0) \<in> set (find_matches b)" and "3 / 4 \<le> c"
    and "choose_level b = Inr (BestMatch (i + 1) c)"
proof -
  from assms consider
      "i = 0 \<and> j = 2 \<and> b = 7 / 10" | "i = 1 \<and> j = 3 \<and> b = 67 / 100"
    | "i = 2 \<and> j = 4 \<and> b = 13 / 20" | "i = 4 \<and> j = 6 \<and> b = 3 / 5"
    | "i = 5 \<and> j = 7 \<and> b = 29 / 50" | "i = 6 \<and> j = 8 \<and> b = 14 / 25"
    unfolding shared_boundaries_eval
    by (simp only: list.set insert_iff empty_iff prod.inject) blast
  then show thesis
  proof cases
    case 1
    show thesis by (rule that [of "3 / 4"]) (simp_all add: 1 boundary_matches boundary_choices)
  next
    case 2
    show thesis by (rule that [of "4 / 5"]) (simp_all add: 2 boundary_matches boundary_choices)
  next
    case 3
    show thesis by (rule that [of "4 / 5"]) (simp_all add: 3 boundary_matches boundary_choices)
  next
    case 4
    show thesis by (rule that [of "4 / 5"]) (simp_all add: 4 boundary_matches boundary_choices)
  next
    case 5
    show thesis by (rule that [of 1]) (simp_all add: 5 boundary_matches boundary_choices)
  next
    case 6
    show thesis by (rule that [of 1]) (simp_all add: 6 boundary_matches boundary_choices)
  qed
qed

text \<open>
  C8 (amended): at every boundary shared by the ranges of two levels \<open>i < j\<close>, both levels
  are collected with centrality 0, and \<^verbatim>\<open>max\<close> keeps the first of two equal entries;
  but \<open>j = i + 2\<close> and the boundary lies inside the range of level \<open>i + 1\<close> with a
  centrality of at least 0.75, so that level \<open>i + 1\<close> is the one both estimators return.
\<close>

theorem shared_boundary_middle_level_wins:
  assumes "(i, j, b) \<in> set shared_boundaries"
    and "map_of info ''compression_ratio'' = Some (PFloat b)"
    and "map_of info ''min_blocksize'' = Some (PInt bmin)"
    and "map_of info ''max_blocksize'' = Some (PInt bmax)"
  shows "(i, 0) \<in> set (find_matches b) \<and> (j, 0) \<in> set (find_matches b) \<and>
         max_by_from snd (i, 0) [(j, 0)] = (i, 0) \<and>
         j = i + 2 \<and>
         (\<exists>c. 3 / 4 \<le> c \<and> choose_level b = Inr (BestMatch (i + 1) c)) \<and>
         (\<not> limited_flag info \<longrightarrow>
            (\<exists>c. ld_estimate_compression_level info = Inr (i + 1, c))) \<and>
         (\<forall>bv fe. fa_blocksize_variability info = Inr bv \<and> fa_framesize_efficiency info = Inr fe
            \<longrightarrow> (\<exists>c m. fa_estimate_compression_level info = Inr (Some (i + 1), c, m)))"
proof -
  obtain c where j: "j = i + 2" and mi: "(i, 0) \<in> set (find_matches b)"
    and mj: "(j, 0) \<in> set (find_matches b)" and c: "3 / 4 \<le> c"
    and ch: "choose_level b = Inr (BestMatch (i + 1) c)"
    using assms(1) by (rule shared_boundary_choice)
  have ld: "\<exists>c. ld_estimate_compression_level info = Inr (i + 1, c)" if "\<not> limited_flag info"
    using ld_estimate_numeric [OF assms(2-4) that] ch by simp
  have fa: "\<exists>c m. fa_estimate_compression_level info = Inr (Some (i + 1), c, m)"
    if "fa_blocksize_variability info = Inr bv" "fa_framesize_efficiency info = Inr fe" for bv fe
    using fa_estimate_numeric [OF assms(2-4) that] ch by simp
  have tie: "max_by_from snd (i, 0::real) [(j, 0)] = (i, 0)"
    by simp
  have mid: "\<exists>c. 3 / 4 \<le> c \<and> choose_level b = Inr (BestMatch (i + 1) c)"
    using c ch by blast
  show ?thesis
    using mi mj tie j mid ld fa by blast
qed

theorem shared_boundary_middle_level_wins_witness:
  "(0, 2, 0.70) \<in> set shared_boundaries \<and>
   map_of boundary_info ''compression_ratio'' = Some (PFloat 0.70) \<and>
   map_of boundary_info ''min_blocksize'' = Some (PInt 4096) \<and>
   map_of boundary_info ''max_blocksize'' = Some (PInt 4096) \<and>
   \<not> limited_flag boundary_info \<and>
   fa_blocksize_variability boundary_info = Inr 0 \<and>
   fa_framesize_efficiency boundary_info = Inr 0.5 \<and>
   (0, 0) \<in> set (find_matches 0.70) \<and> (2, 0) \<in> set (find_matches 0.70) \<and>
   (\<exists>c. ld_estimate_compression_level boundary_info = Inr (1, c)) \<and>
   (\<exists>c m. fa_estimate_compression_level boundary_info = Inr (Some 1, c, m))"
proof -
  have s: "(0, 2, 0.70) \<in> set shared_boundaries"
    by (simp add: shared_boundaries_eval)
  have h: "map_of boundary_info ''compression_ratio'' = Some (PFloat 0.70)"
    "map_of boundary_info ''min_blocksize'' = Some (PInt 4096)"
    "map_of boundary_info ''max_blocksize'' = Some (PInt 4096)"
    by (simp_all add: boundary_info_def)
  have l: "\<not> limited_flag boundary_info"
    by (simp add: boundary_info_def limited_flag_def)
  have m: "fa_blocksize_variability boundary_info = Inr 0"
    "fa_framesize_efficiency boundary_info = Inr 0.5"
    by (simp_all add: boundary_info_def estimator_defs)
  note t = shared_boundary_middle_level_wins [OF s h]
  from t l have ld: "\<exists>c. ld_estimate_compression_level boundary_info = Inr (0 + 1, c)"
    by blast
  from t m have fa: "\<exists>c m. fa_estimate_compression_level boundary_info = Inr (Some (0 + 1), c, m)"
    by blast
  from t have mm: "(0, 0) \<in> set (find_matches 0.70)" "(2, 0) \<in> set (find_matches 0.70)"
    by blast+
  show ?thesis
    using s h l m mm ld fa by simp
qed








section \<open>Probing a file\<close>

lemmas string_defs =
  splitlines_def nl_def is_linebreak_def strip_def is_space_def whitespace_def lower_def
  lower_char_def spaces_to_underscores_def

lemmas probe_defs =
  probe_body_def flac_argv_def metaflac_argv_def parse_metaflac_def derive_statistics_def
  convert_field_def duration_of_def uncompressed_product_def py_trunc_def setitem_def
  has_key_def getitem_def table_int_def table_float_def


lemma ld_handle_other: "\<not> tool_unavailable e \<Longrightarrow> ld_handle n e = None"
  by (cases e) simp_all

lemma ld_estimate_limited: "ld_estimate_compression_level (limited_info n) = Inr (5, 0.1)"
  by (simp add: ld_estimate_compression_level_def limited_flag_def limited_info_def
        estimate_level_from_file_size_def)

lemma ld_estimate_limited_error:
  "ld_estimate_compression_level (limited_info_error n msg) = Inr (5, 0.1)"
  by (simp add: ld_estimate_compression_level_def limited_flag_def limited_info_error_def
        estimate_level_from_file_size_def)

lemma ld_estimate_level_range:
  assumes "ld_estimate_compression_level info = Inr (l, c)"
  shows "0 \<le> l \<and> l \<le> 8"
proof (cases "limited_flag info \<or> \<not> has_required info")
  case True
  with assms show ?thesis
    by (auto simp: ld_estimate_compression_level_def estimate_level_from_file_size_def
             split: if_splits)
next
  case False
  with assms obtain rv r where r: "as_num rv = Inr r"
    and rest: "(case choose_level r of Inl e \<Rightarrow> Inl e
        | Inr (OutOfRange l c) \<Rightarrow> Inr (l, c)
        | Inr (BestMatch l c) \<Rightarrow>
            (case getitem info ''min_blocksize'' of Inl e \<Rightarrow> Inl e
             | Inr mn \<Rightarrow> (case getitem info ''max_blocksize'' of Inl e \<Rightarrow> Inl e
             | Inr mx \<Rightarrow> Inr (l, ld_adjust (py_eq mn mx) l c)))) = Inr (l, c)"
    by (auto simp: ld_estimate_compression_level_def split: sum.splits)
  show ?thesis
  proof (cases r rule: choose_level_cases)
    case (out k)
    with rest show ?thesis by simp
  next
    case (best k d)
    with rest show ?thesis by (auto split: sum.splits)
  qed
qed

lemma level_attempt_range:
  assumes "level_attempt E p t = Inr l"
  shows "0 \<le> l \<and> l \<le> 8"
proof (cases "ld_analyze_flac_file E p")
  case (Inl e)
  with assms show ?thesis by (simp add: level_attempt_def)
next
  case (Inr a)
  show ?thesis
  proof (cases a)
    case None
    with Inr assms show ?thesis by (simp add: level_attempt_def)
  next
    case (Some info)
    show ?thesis
    proof (cases "info = []")
      case True
      with Inr Some assms show ?thesis by (simp add: level_attempt_def)
    next
      case False
      with Inr Some assms obtain k c where est: "ld_estimate_compression_level info = Inr (k, c)"
        and l: "l = 5 \<or> l = k"
        by (auto simp: level_attempt_def split: sum.splits if_splits)
      from ld_estimate_level_range [OF est] l show ?thesis by auto
    qed
  qed
qed

lemma get_level_range:
  "0 \<le> get_flac_compression_level E p t \<and> get_flac_compression_level E p t \<le> 8"
proof (cases "level_attempt E p t")
  case (Inl e)
  then show ?thesis by (simp add: get_flac_compression_level_def)
next
  case (Inr l)
  with level_attempt_range [OF Inr] show ?thesis by (simp add: get_flac_compression_level_def)
qed

lemma get_level_limited:
  assumes "ld_analyze_flac_file E p = Inr (Some (limited_info n))"
  shows "get_flac_compression_level E p t = 5"
proof -
  have ne: "limited_info n \<noteq> []" by (simp add: limited_info_def)
  show ?thesis
    using assms ne
    by (simp add: get_flac_compression_level_def level_attempt_def ld_estimate_limited
             split: sum.splits)
qed

lemma get_level_unanalyzable:
  assumes "(\<exists>e. ld_analyze_flac_file E p = Inl e) \<or> ld_analyze_flac_file E p = Inr None"
  shows "get_flac_compression_level E p t = 5"
  using assms by (auto simp: get_flac_compression_level_def level_attempt_def)

lemma ld_analyze_version_failure:
  assumes "(\<exists>e. run E [''flac'', ''--version''] = Inl e) \<or>
           (\<exists>e. run E [''metaflac'', ''--version''] = Inl e)"
  shows "(\<exists>e. ld_analyze_flac_file E p = Inl e) \<or> ld_analyze_flac_file E p = Inr None \<or>
         (\<exists>n. ld_analyze_flac_file E p = Inr (Some (limited_info n)))"
proof (cases "path_exists E p")
  case False
  then show ?thesis by (simp add: ld_analyze_flac_file_def)
next
  case True
  show ?thesis
  proof (cases "getsize E p")
    case (Inl e)
    with True show ?thesis by (simp add: ld_analyze_flac_file_def)
  next
    case (Inr n)
    show ?thesis
    proof (cases "run E [''flac'', ''--version'']")
      case (Inl e)
      with True Inr show ?thesis
        by (auto simp: ld_analyze_flac_file_def ld_handle_other)
    next
      case out1: (Inr o1)
      with assms obtain e where "run E [''metaflac'', ''--version''] = Inl e" by auto
      with True Inr out1 show ?thesis
        by (auto simp: ld_analyze_flac_file_def ld_handle_other)
    qed
  qed
qed

text \<open>
  C2: \<^verbatim>\<open>get_flac_compression_level\<close> raises nothing and returns a level from 0 to 8 for
  every path and threshold; it returns 5 when the analysis raises or returns \<^verbatim>\<open>None\<close>,
  when the estimation raises, and when a \<^verbatim>\<open>--version\<close> check of either tool fails, whatever
  the threshold.
\<close>

theorem get_flac_compression_level_default:
  "0 \<le> get_flac_compression_level E p t \<and> get_flac_compression_level E p t \<le> 8 \<and>
   ((\<exists>e. ld_analyze_flac_file E p = Inl e) \<or> ld_analyze_flac_file E p = Inr None
      \<longrightarrow> get_flac_compression_level E p t = 5) \<and>
   (\<forall>info e. ld_analyze_flac_file E p = Inr (Some info) \<and>
        ld_estimate_compression_level info = Inl e
      \<longrightarrow> get_flac_compression_level E p t = 5) \<and>
   ((\<exists>e. run E [''flac'', ''--version''] = Inl e) \<or>
    (\<exists>e. run E [''metaflac'', ''--version''] = Inl e)
      \<longrightarrow> get_flac_compression_level E p t = 5)"
proof (intro conjI impI allI)
  show "0 \<le> get_flac_compression_level E p t" using get_level_range by blast
  show "get_flac_compression_level E p t \<le> 8" using get_level_range by blast
  show "get_flac_compression_level E p t = 5"
    if "(\<exists>e. ld_analyze_flac_file E p = Inl e) \<or> ld_analyze_flac_file E p = Inr None"
    using that by (rule get_level_unanalyzable)
  show "get_flac_compression_level E p t = 5"
    if "ld_analyze_flac_file E p = Inr (Some info) \<and> ld_estimate_compression_level info = Inl e"
    for info e
    using that by (simp add: get_flac_compression_level_def level_attempt_def)
  show "get_flac_compression_level E p t = 5"
    if "(\<exists>e. run E [''flac'', ''--version''] = Inl e) \<or>
        (\<exists>e. run E [''metaflac'', ''--version''] = Inl e)"
    using ld_analyze_version_failure [OF that, of p]
      get_level_unanalyzable [of E p t] get_level_limited [of E p _ t]
    by blast
qed

lemma env_text_ratio_analysis:
  "ld_analyze_flac_file env_text_ratio ''song.flac'' =
     Inr (Some [(''file_size'', PInt 1000), (''compression_ratio'', PStr ''high''),
                (''min_blocksize'', PStr ''4096''), (''max_blocksize'', PStr ''4096'')])"
  by (simp add: ld_analyze_flac_file_def env_text_ratio_def probe_defs string_defs)

theorem get_flac_compression_level_default_witness:
  "run env_no_tools [''flac'', ''--version''] = Inl FileNotFoundError \<and>
   get_flac_compression_level env_no_tools ''song.flac'' (PFloat 0.7) = 5 \<and>
   ld_analyze_flac_file env_missing ''gone.flac'' = Inr None \<and>
   get_flac_compression_level env_missing ''gone.flac'' (PFloat 0.7) = 5 \<and>
   ld_estimate_compression_level
     [(''file_size'', PInt 1000), (''compression_ratio'', PStr ''high''),
      (''min_blocksize'', PStr ''4096''), (''max_blocksize'', PStr ''4096'')] = Inl TypeError \<and>
   get_flac_compression_level env_text_ratio ''song.flac'' (PFloat 0) = 5"
proof -
  have a: "run env_no_tools [''flac'', ''--version''] = Inl FileNotFoundError"
    by (simp add: env_no_tools_def)
  have b: "ld_analyze_flac_file env_missing ''gone.flac'' = Inr None"
    by (simp add: ld_analyze_flac_file_def env_missing_def)
  have c: "ld_estimate_compression_level
     [(''file_size'', PInt 1000), (''compression_ratio'', PStr ''high''),
      (''min_blocksize'', PStr ''4096''), (''max_blocksize'', PStr ''4096'')] = Inl TypeError"
    by (simp add: estimator_defs)
  from a get_flac_compression_level_default [of env_no_tools "''song.flac''" "PFloat 0.7"]
  have a': "get_flac_compression_level env_no_tools ''song.flac'' (PFloat 0.7) = 5"
    by blast
  from b get_flac_compression_level_default [of env_missing "''gone.flac''" "PFloat 0.7"]
  have b': "get_flac_compression_level env_missing ''gone.flac'' (PFloat 0.7) = 5"
    by blast
  from c env_text_ratio_analysis
    get_flac_compression_level_default [of env_text_ratio "''song.flac''" "PFloat 0"]
  have c': "get_flac_compression_level env_text_ratio ''song.flac'' (PFloat 0) = 5"
    by blast
  show ?thesis using a a' b b' c c' by simp
qed

text \<open>
  C5 (as the specification states it): for a path that does not exist the probe fails
  with a not-found error to its direct caller. This fails on
  \<^verbatim>\<open>flac_level_detection.analyze_flac_file\<close>, the probe that
  \<^verbatim>\<open>get_flac_compression_level\<close> calls: it logs and returns \<^verbatim>\<open>None\<close>.
\<close>

theorem missing_path_returns_none:
  "\<not> path_exists env_missing ''gone.flac'' \<and>
   ld_analyze_flac_file env_missing ''gone.flac'' = Inr None \<and>
   ld_analyze_flac_file env_missing ''gone.flac'' \<noteq> Inl FileNotFoundError"
  by (simp add: ld_analyze_flac_file_def env_missing_def)

text \<open>
  C5 (amended): for every path that does not exist,
  \<^verbatim>\<open>flac_analyzer.analyze_flac_file\<close> raises FileNotFoundError,
  \<^verbatim>\<open>flac_level_detection.analyze_flac_file\<close> raises nothing and returns \<^verbatim>\<open>None\<close>, and
  \<^verbatim>\<open>get_flac_compression_level\<close> returns 5. For a path that exists neither probe raises
  anything but an error of \<^verbatim>\<open>os.path.getsize\<close>, which is called before the \<^verbatim>\<open>try\<close> block.
\<close>

theorem missing_path_outcomes:
  "(\<not> path_exists E p \<longrightarrow>
      fa_analyze_flac_file E p = Inl FileNotFoundError \<and>
      ld_analyze_flac_file E p = Inr None \<and>
      get_flac_compression_level E p t = 5) \<and>
   (path_exists E p \<longrightarrow>
      (\<forall>e. fa_analyze_flac_file E p = Inl e \<longrightarrow> getsize E p = Inl e) \<and>
      (\<forall>e. ld_analyze_flac_file E p = Inl e \<longrightarrow> getsize E p = Inl e))"
proof (intro conjI impI allI)
  assume missing: "\<not> path_exists E p"
  show "fa_analyze_flac_file E p = Inl FileNotFoundError"
    using missing by (simp add: fa_analyze_flac_file_def)
  show none: "ld_analyze_flac_file E p = Inr None"
    using missing by (simp add: ld_analyze_flac_file_def)
  show "get_flac_compression_level E p t = 5"
    using none by (simp add: get_level_unanalyzable)
next
  fix e
  assume "path_exists E p" and "fa_analyze_flac_file E p = Inl e"
  then show "getsize E p = Inl e"
    by (simp add: fa_analyze_flac_file_def split: sum.splits)
next
  fix e
  assume "path_exists E p" and "ld_analyze_flac_file E p = Inl e"
  then show "getsize E p = Inl e"
    by (simp add: ld_analyze_flac_file_def split: sum.splits if_splits)
qed

theorem missing_path_outcomes_witness:
  "\<not> path_exists env_missing ''gone.flac'' \<and>
   fa_analyze_flac_file env_missing ''gone.flac'' = Inl FileNotFoundError \<and>
   ld_analyze_flac_file env_missing ''gone.flac'' = Inr None \<and>
   get_flac_compression_level env_missing ''gone.flac'' (PFloat 0.7) = 5 \<and>
   path_exists env_no_tools ''song.flac'' \<and>
   fa_analyze_flac_file env_no_tools ''song.flac'' \<noteq> Inl FileNotFoundError \<and>
   ld_analyze_flac_file env_no_tools ''song.flac'' \<noteq> Inl FileNotFoundError"
proof -
  have a: "\<not> path_exists env_missing ''gone.flac''"
    by (simp add: env_missing_def)
  have b: "path_exists env_no_tools ''song.flac''"
    "getsize env_no_tools ''song.flac'' \<noteq> Inl FileNotFoundError"
    by (simp_all add: env_no_tools_def)
  from a missing_path_outcomes [of env_missing "''gone.flac''" "PFloat 0.7"]
  have a': "fa_analyze_flac_file env_missing ''gone.flac'' = Inl FileNotFoundError \<and>
      ld_analyze_flac_file env_missing ''gone.flac'' = Inr None \<and>
      get_flac_compression_level env_missing ''gone.flac'' (PFloat 0.7) = 5"
    by blast
  from b missing_path_outcomes [of env_no_tools "''song.flac''" "PFloat 0.7"]
  have b': "fa_analyze_flac_file env_no_tools ''song.flac'' \<noteq> Inl FileNotFoundError \<and>
      ld_analyze_flac_file env_no_tools ''song.flac'' \<noteq> Inl FileNotFoundError"
    by blast
  show ?thesis using a a' b(1) b' by simp
qed

text \<open>
  C6 (as the specification states it): for an existing path, a missing tool or a tool
  that exits with a non-zero status makes \<^verbatim>\<open>analyze_flac_file\<close> return a dict with the
  file size only, rather than nothing. This fails on \<^verbatim>\<open>flac_analyzer.analyze_flac_file\<close>,
  which returns \<^verbatim>\<open>None\<close>.
\<close>

theorem missing_tool_analyzer_returns_none:
  "path_exists env_no_tools ''song.flac'' \<and>
   run env_no_tools (flac_argv ''song.flac'') = Inl FileNotFoundError \<and>
   fa_analyze_flac_file env_no_tools ''song.flac'' = Inr None"
  by (simp add: fa_analyze_flac_file_def env_no_tools_def probe_body_def)

text \<open>
  C6 (amended): for every existing path of size \<open>n\<close>,
  \<^verbatim>\<open>flac_level_detection.analyze_flac_file\<close> returns the dict
  \<^verbatim>\<open>{file_size: n, limited_analysis: True}\<close> when the \<^verbatim>\<open>--version\<close> check of
  \<^verbatim>\<open>flac\<close> or \<^verbatim>\<open>metaflac\<close> raises FileNotFoundError or CalledProcessError, and the
  dict \<^verbatim>\<open>{file_size: n, error: message, limited_analysis: True}\<close> when an analysis command
  exits with a non-zero status; \<^verbatim>\<open>flac_analyzer.analyze_flac_file\<close> returns \<^verbatim>\<open>None\<close> when
  an analysis command cannot be run or exits with a non-zero status.
\<close>

theorem tool_failure_outcomes:
  assumes "path_exists E p" and "getsize E p = Inr n"
  shows
    "(\<forall>e. run E [''flac'', ''--version''] = Inl e \<and> tool_unavailable e
        \<longrightarrow> ld_analyze_flac_file E p = Inr (Some (limited_info n))) \<and>
     (\<forall>o1 e. run E [''flac'', ''--version''] = Inr o1 \<and>
          run E [''metaflac'', ''--version''] = Inl e \<and> tool_unavailable e
        \<longrightarrow> ld_analyze_flac_file E p = Inr (Some (limited_info n))) \<and>
     (\<forall>o1 o2 msg. run E [''flac'', ''--version''] = Inr o1 \<and>
          run E [''metaflac'', ''--version''] = Inr o2 \<and>
          run E (flac_argv p) = Inl (CalledProcessError msg)
        \<longrightarrow> ld_analyze_flac_file E p = Inr (Some (limited_info_error n msg))) \<and>
     (\<forall>o1 o2 o3 msg. run E [''flac'', ''--version''] = Inr o1 \<and>
          run E [''metaflac'', ''--version''] = Inr o2 \<and>
          run E (flac_argv p) = Inr o3 \<and>
          run E (metaflac_argv p) = Inl (CalledProcessError msg)
        \<longrightarrow> ld_analyze_flac_file E p = Inr (Some (limited_info_error n msg))) \<and>
     (\<forall>e. run E (flac_argv p) = Inl e \<longrightarrow> fa_analyze_flac_file E p = Inr None) \<and>
     (\<forall>o3 e. run E (flac_argv p) = Inr o3 \<and> run E (metaflac_argv p) = Inl e
        \<longrightarrow> fa_analyze_flac_file E p = Inr None)"
  using assms
  by (simp add: ld_analyze_flac_file_def fa_analyze_flac_file_def probe_body_def)

theorem tool_failure_outcomes_witness:
  "path_exists env_no_tools ''song.flac'' \<and> getsize env_no_tools ''song.flac'' = Inr 1000 \<and>
   run env_no_tools [''flac'', ''--version''] = Inl FileNotFoundError \<and>
   ld_analyze_flac_file env_no_tools ''song.flac'' =
     Inr (Some [(''file_size'', PInt 1000), (''limited_analysis'', PBool True)]) \<and>
   fa_analyze_flac_file env_no_tools ''song.flac'' = Inr None \<and>
   path_exists env_exit_1 ''song.flac'' \<and> getsize env_exit_1 ''song.flac'' = Inr 1000 \<and>
   run env_exit_1 (flac_argv ''song.flac'') = Inl (CalledProcessError ''exit status 1'') \<and>
   ld_analyze_flac_file env_exit_1 ''song.flac'' =
     Inr (Some [(''file_size'', PInt 1000), (''error'', PStr ''exit status 1''),
                (''limited_analysis'', PBool True)]) \<and>
   fa_analyze_flac_file env_exit_1 ''song.flac'' = Inr None"
proof -
  have a: "path_exists env_no_tools ''song.flac''" "getsize env_no_tools ''song.flac'' = Inr 1000"
    by (simp_all add: env_no_tools_def)
  have a1: "run env_no_tools [''flac'', ''--version''] = Inl FileNotFoundError"
    "run env_no_tools (flac_argv ''song.flac'') = Inl FileNotFoundError"
    "tool_unavailable FileNotFoundError"
    by (simp_all add: env_no_tools_def)
  have b: "path_exists env_exit_1 ''song.flac''" "getsize env_exit_1 ''song.flac'' = Inr 1000"
    by (simp_all add: env_exit_1_def)
  have b1: "run env_exit_1 [''flac'', ''--version''] = Inr ''1.4.3''"
    "run env_exit_1 [''metaflac'', ''--version''] = Inr ''1.4.3''"
    "run env_exit_1 (flac_argv ''song.flac'') = Inl (CalledProcessError ''exit status 1'')"
    by (simp_all add: env_exit_1_def flac_argv_def)
  from tool_failure_outcomes [OF a] a1
  have a': "ld_analyze_flac_file env_no_tools ''song.flac'' = Inr (Some (limited_info 1000))"
    "fa_analyze_flac_file env_no_tools ''song.flac'' = Inr None"
    by blast+
  from tool_failure_outcomes [OF b] b1
  have b': "ld_analyze_flac_file env_exit_1 ''song.flac'' =
              Inr (Some (limited_info_error 1000 ''exit status 1''))"
    "fa_analyze_flac_file env_exit_1 ''song.flac'' = Inr None"
    by blast+
  show ?thesis
    using a a1(1) a' b b1(3) b' by (simp add: limited_info_def limited_info_error_def)
qed

section \<open>The uncompressed size\<close>








end
